theory Spec2Isabelle
  imports Main
begin

section \<open>Go values: errors, panics, strings\<close>

text \<open>
  A Go \<^verbatim>\<open>error\<close> is an interface value that may be nil: it is modelled as
  \<open>error option\<close>, \<open>None\<close> being nil.  An error made by this program with
  \<^verbatim>\<open>errors.New\<close> is \<open>ErrorsNew msg\<close>; an error value handed back by a library or a
  remote service (net/http, encoding/json, go-github) is \<open>LibraryError msg\<close>.
\<close>

datatype error = ErrorsNew string | LibraryError string

text \<open>
  A run-time panic ends the call without a return value.  The constructors name the
  places where the program can panic: an index past the end of a slice, a field read
  through a nil pointer, a method call on a nil interface value, and a panic raised
  inside an implementation that is not part of this package.
\<close>

datatype panic =
    IndexOutOfRange
  | NilPointerDereference
  | NilInterfaceCall
  | ImplementationPanic string

text \<open>Slice indexing \<^verbatim>\<open>xs[i]\<close>: Go panics when the index is out of range.\<close>

definition index :: "'a list \<Rightarrow> nat \<Rightarrow> panic + 'a" where
  "index xs i = (if i < length xs then Inr (xs ! i) else Inl IndexOutOfRange)"

text \<open>
  \<^verbatim>\<open>strings.Split(s, sep)\<close> for a one-byte separator (the program only splits at
  \<^verbatim>\<open>"/"\<close> and \<^verbatim>\<open>":"\<close>): the text before the first separator, then the split
  of what follows it; a string without the separator is returned whole, so the result
  is never empty.
\<close>

function Split :: "string \<Rightarrow> char \<Rightarrow> string list" where
  "Split s sep =
     (case dropWhile (\<lambda>c. c \<noteq> sep) s of
        [] \<Rightarrow> [s]
      | _ # rest \<Rightarrow> takeWhile (\<lambda>c. c \<noteq> sep) s # Split rest sep)"
  by pat_completeness auto
termination
proof (relation "measure (\<lambda>(s, sep). length s)")
  show "wf (measure (\<lambda>(s, sep). length s))"
    by simp
next
  fix s :: string and sep c rest
  assume "dropWhile (\<lambda>c. c \<noteq> sep) s = c # rest"
  then have "length (c # rest) \<le> length s"
    by (metis length_dropWhile_le)
  then show "((rest, sep), (s, sep)) \<in> measure (\<lambda>(s, sep). length s)"
    by simp
qed

section \<open>Package-level variables and the Status struct\<close>

record Status =
  Repo :: string
  Ref :: string
  State :: string
  Context :: string
  TargetURL :: string
  Description :: string

definition Context :: string where
  "Context = ''Docker Image''"

definition Statuses :: "string \<rightharpoonup> string" where
  "Statuses =
     [''pending'' \<mapsto> ''The Docker image is building'',
      ''success'' \<mapsto> ''The Docker image was built'',
      ''failure'' \<mapsto> ''The Docker image failed to build'']"

text \<open>Indexing a Go map: a key that is absent yields the zero value, the empty string.\<close>

definition map_index :: "(string \<rightharpoonup> string) \<Rightarrow> string \<Rightarrow> string" where
  "map_index m k = (case m k of None \<Rightarrow> [] | Some v \<Rightarrow> v)"

section \<open>The outside: go-github, net/http, encoding/json\<close>

text \<open>
  \<^verbatim>\<open>github.RepoStatus\<close> as \<^verbatim>\<open>GitHubStatusesRepository.Create\<close> fills it: State,
  TargetURL, Context, Description, in that order.
\<close>

datatype RepoStatus = RepoStatus string string string string

record Request =
  Method :: string
  URL :: string
  Payload :: string
  Header :: "(string \<times> string) list"
  BasicAuth :: "(string \<times> string) option"

record Response =
  Status :: string
  StatusCode :: int
  Body :: string

text \<open>
  The libraries are parameters of the model.  The remote services and the network are
  a state \<open>'w\<close> that every remote call may read and change.

  \<^item> \<open>github_Repositories token\<close> is the \<^verbatim>\<open>CreateStatus\<close> method of the
    RepositoriesService of a go-github client authenticated with \<open>token\<close>; only the
    error of its three results is kept, since the program drops the others.
  \<^item> \<open>url_Parse\<close> is the URL check of \<^verbatim>\<open>http.NewRequest\<close>.
  \<^item> \<open>Do\<close> is \<^verbatim>\<open>http.DefaultClient.Do\<close> and \<open>Get\<close> is \<^verbatim>\<open>http.Get\<close>: each
    returns a response pointer and an error, either of which may be nil.
  \<^item> \<open>Decode\<close> is \<^verbatim>\<open>json.NewDecoder(body).Decode(&imageID)\<close> into a string
    variable: the string stored, or the error.
\<close>

type_synonym 'w CreateStatus =
  "string \<Rightarrow> string \<Rightarrow> string \<Rightarrow> RepoStatus \<Rightarrow> 'w \<Rightarrow> error option \<times> 'w"

record 'w libs =
  github_Repositories :: "string \<Rightarrow> 'w CreateStatus"
  url_Parse :: "string \<Rightarrow> error option"
  Do :: "Request \<Rightarrow> 'w \<Rightarrow> (Response option \<times> error option) \<times> 'w"
  Get :: "string \<Rightarrow> 'w \<Rightarrow> (Response option \<times> error option) \<times> 'w"
  Decode :: "string \<Rightarrow> error + string"

text \<open>
  \<^verbatim>\<open>http.NewRequest(method, url, body)\<close>: the program passes the valid method
  \<^verbatim>\<open>"PUT"\<close>, so the call fails exactly when the URL does not parse.
\<close>

definition NewRequest :: "'w libs \<Rightarrow> string \<Rightarrow> string \<Rightarrow> string \<Rightarrow> error + Request" where
  "NewRequest L method url body =
     (case url_Parse L url of
        Some err \<Rightarrow> Inl err
      | None \<Rightarrow>
          Inr \<lparr>Method = method, URL = url, Payload = body, Header = [], BasicAuth = None\<rparr>)"

section \<open>The three interfaces and their implementations\<close>

text \<open>
  An interface value is nil (\<open>None\<close>) or holds one of the implementations of the
  package: the fake, which the package keeps in a global variable, or the
  network-backed one.  Any other implementation of the interface is a \<open>Custom_\<close>
  value: a function on the outside world that returns the method's results, or
  \<open>Inl msg\<close> when it panics.
\<close>

datatype 'w StatusesRepository =
    DefaultStatusesRepository
  | GitHubStatusesRepository "'w CreateStatus"
  | Custom_StatusesRepository "Status \<Rightarrow> 'w \<Rightarrow> (string + error option) \<times> 'w"

datatype 'w Tagger =
    DefaultTagger
  | DockerRegistryTagger string string string
  | Custom_Tagger "string \<Rightarrow> string \<Rightarrow> string \<Rightarrow> 'w \<Rightarrow> (string + error option) \<times> 'w"

datatype 'w TagResolver =
    DefaultTagResolver
  | DockerRegistryTagResolver string
  | Custom_TagResolver "string \<Rightarrow> string \<Rightarrow> 'w \<Rightarrow> (string + string \<times> error option) \<times> 'w"

text \<open>
  The state of a run: \<open>statuses\<close> is the slice of the fake sink
  \<^verbatim>\<open>DefaultStatusesRepository\<close>, \<open>world\<close> is the outside, and \<open>calls\<close> is the
  history of the interface methods invoked so far, oldest first.  The history is not
  a variable of the program: it is there so that statements about which calls were
  made, how often and in which order can be written down.
\<close>

datatype call =
    CreateCall Status
  | ResolveCall string string
  | TagCall string string string

record 'w machine =
  statuses :: "Status list"
  calls :: "call list"
  world :: 'w

definition logged :: "call \<Rightarrow> 'w machine \<Rightarrow> 'w machine" where
  "logged c s = s\<lparr>calls := calls s @ [c]\<rparr>"

definition in_world :: "('w \<Rightarrow> 'a \<times> 'w) \<Rightarrow> 'w machine \<Rightarrow> 'a \<times> 'w machine" where
  "in_world m s = (case m (world s) of (r, w') \<Rightarrow> (r, s\<lparr>world := w'\<rparr>))"

definition foreign :: "('w \<Rightarrow> (string + 'a) \<times> 'w) \<Rightarrow> 'w \<Rightarrow> (panic + 'a) \<times> 'w" where
  "foreign m w =
     (case m w of
        (Inl msg, w') \<Rightarrow> (Inl (ImplementationPanic msg), w')
      | (Inr v, w') \<Rightarrow> (Inr v, w'))"

subsection \<open>StatusesRepository\<close>

definition statusesRepository_Create ::
  "Status \<Rightarrow> 'w machine \<Rightarrow> (panic + error option) \<times> 'w machine" where
  "statusesRepository_Create status s = (Inr None, s\<lparr>statuses := statuses s @ [status]\<rparr>)"

definition statusesRepository_Reset :: "'w machine \<Rightarrow> 'w machine" where
  "statusesRepository_Reset s = s\<lparr>statuses := []\<rparr>"

text \<open>
  \<^verbatim>\<open>GitHubStatusesRepository.Create\<close>.  The receiver and its
  \<^verbatim>\<open>RepositoriesService\<close> are taken to be there (\<^verbatim>\<open>New\<close> sets both), so the
  service is the function \<open>CreateStatus\<close>.  The arguments \<^verbatim>\<open>c[0]\<close> and \<^verbatim>\<open>c[1]\<close>
  are read before the call is made.
\<close>

definition GitHubStatusesRepository_Create ::
  "'w CreateStatus \<Rightarrow> Status \<Rightarrow> 'w \<Rightarrow> (panic + error option) \<times> 'w" where
  "GitHubStatusesRepository_Create CreateStatus status w =
     (let st = RepoStatus (State status) (TargetURL status) (Status.Context status)
                 (Description status);
          c = Split (Repo status) (CHR ''/'')
      in case index c 0 of
           Inl p \<Rightarrow> (Inl p, w)
         | Inr owner \<Rightarrow>
             (case index c 1 of
                Inl p \<Rightarrow> (Inl p, w)
              | Inr repo \<Rightarrow>
                  (case CreateStatus owner repo (Ref status) st w of
                     (err, w') \<Rightarrow> (Inr err, w'))))"

definition Create ::
  "'w StatusesRepository option \<Rightarrow> Status \<Rightarrow> 'w machine \<Rightarrow>
     (panic + error option) \<times> 'w machine" where
  "Create r status s =
     (case r of
        None \<Rightarrow> (Inl NilInterfaceCall, s)
      | Some DefaultStatusesRepository \<Rightarrow>
          statusesRepository_Create status (logged (CreateCall status) s)
      | Some (GitHubStatusesRepository CreateStatus) \<Rightarrow>
          in_world (GitHubStatusesRepository_Create CreateStatus status)
            (logged (CreateCall status) s)
      | Some (Custom_StatusesRepository f) \<Rightarrow>
          in_world (foreign (f status)) (logged (CreateCall status) s))"

subsection \<open>Tagger\<close>

definition tagger_Tag ::
  "string \<Rightarrow> string \<Rightarrow> string \<Rightarrow> 'w machine \<Rightarrow> (panic + error option) \<times> 'w machine" where
  "tagger_Tag repo imageID tag s = (Inr None, s)"

text \<open>
  \<^verbatim>\<open>DockerRegistryTagger.Tag\<close>.  The condition
  \<^verbatim>\<open>err != nil || resp.StatusCode >= 300\<close> reads \<^verbatim>\<open>resp.StatusCode\<close> only when
  \<^verbatim>\<open>err\<close> is nil, and the body of the \<^verbatim>\<open>if\<close> reads \<^verbatim>\<open>resp.Status\<close>; either
  read panics when \<^verbatim>\<open>resp\<close> is nil.  The final \<^verbatim>\<open>return err\<close> returns the
  \<^verbatim>\<open>err\<close> of \<^verbatim>\<open>http.NewRequest\<close>, which is nil there.
\<close>

definition DockerRegistryTagger_Tag ::
  "'w libs \<Rightarrow> string \<Rightarrow> string \<Rightarrow> string \<Rightarrow> string \<Rightarrow> string \<Rightarrow> string \<Rightarrow> 'w \<Rightarrow>
     (panic + error option) \<times> 'w" where
  "DockerRegistryTagger_Tag L registry username password repo imageID tag w =
     (case NewRequest L ''PUT''
             (''https://'' @ registry @ ''/v1/repositories/'' @ repo @ ''/tags/'' @ tag)
             ([CHR 0x22] @ imageID @ [CHR 0x22]) of
        Inl err \<Rightarrow> (Inr (Some err), w)
      | Inr req0 \<Rightarrow>
          (let req1 = req0\<lparr>Header := Header req0 @ [(''Content-Type'', ''application/json'')]\<rparr>;
               req = req1\<lparr>BasicAuth := Some (username, password)\<rparr>
           in case Do L req w of
                ((resp, err), w') \<Rightarrow>
                  (if err \<noteq> None then
                     (case resp of
                        None \<Rightarrow> (Inl NilPointerDereference, w')
                      | Some r \<Rightarrow>
                          (Inr (Some (ErrorsNew (''Unsuccessful Request: '' @ Status r))), w'))
                   else
                     (case resp of
                        None \<Rightarrow> (Inl NilPointerDereference, w')
                      | Some r \<Rightarrow>
                          (if 300 \<le> StatusCode r then
                             (Inr (Some (ErrorsNew (''Unsuccessful Request: '' @ Status r))), w')
                           else (Inr None, w'))))))"

definition Tag ::
  "'w libs \<Rightarrow> 'w Tagger option \<Rightarrow> string \<Rightarrow> string \<Rightarrow> string \<Rightarrow> 'w machine \<Rightarrow>
     (panic + error option) \<times> 'w machine" where
  "Tag L t repo imageID tag s =
     (case t of
        None \<Rightarrow> (Inl NilInterfaceCall, s)
      | Some DefaultTagger \<Rightarrow> tagger_Tag repo imageID tag (logged (TagCall repo imageID tag) s)
      | Some (DockerRegistryTagger registry username password) \<Rightarrow>
          in_world (DockerRegistryTagger_Tag L registry username password repo imageID tag)
            (logged (TagCall repo imageID tag) s)
      | Some (Custom_Tagger f) \<Rightarrow>
          in_world (foreign (f repo imageID tag)) (logged (TagCall repo imageID tag) s))"

subsection \<open>TagResolver\<close>

definition tagResolver_Resolve ::
  "string \<Rightarrow> string \<Rightarrow> 'w machine \<Rightarrow> (panic + string \<times> error option) \<times> 'w machine" where
  "tagResolver_Resolve repo tag s = (Inr ([], None), s)"

text \<open>
  \<^verbatim>\<open>DockerRegistryTagResolver.Resolve\<close>.  The response is read only after
  \<^verbatim>\<open>err\<close> was found nil; \<^verbatim>\<open>resp.Body\<close> panics when the response is nil.
  The status code of the response is never read.
\<close>

definition DockerRegistryTagResolver_Resolve ::
  "'w libs \<Rightarrow> string \<Rightarrow> string \<Rightarrow> string \<Rightarrow> 'w \<Rightarrow> (panic + string \<times> error option) \<times> 'w" where
  "DockerRegistryTagResolver_Resolve L registry repo tag w =
     (case Get L (''https://'' @ registry @ ''/v1/repositories/'' @ repo @ ''/tags/'' @ tag) w of
        ((resp, err), w') \<Rightarrow>
          (if err \<noteq> None then (Inr ([], err), w')
           else
             (case resp of
                None \<Rightarrow> (Inl NilPointerDereference, w')
              | Some r \<Rightarrow>
                  (case Decode L (Body r) of
                     Inl err \<Rightarrow> (Inr ([], Some err), w')
                   | Inr imageID \<Rightarrow> (Inr (imageID, None), w')))))"

definition Resolve ::
  "'w libs \<Rightarrow> 'w TagResolver option \<Rightarrow> string \<Rightarrow> string \<Rightarrow> 'w machine \<Rightarrow>
     (panic + string \<times> error option) \<times> 'w machine" where
  "Resolve L r repo tag s =
     (case r of
        None \<Rightarrow> (Inl NilInterfaceCall, s)
      | Some DefaultTagResolver \<Rightarrow> tagResolver_Resolve repo tag (logged (ResolveCall repo tag) s)
      | Some (DockerRegistryTagResolver registry) \<Rightarrow>
          in_world (DockerRegistryTagResolver_Resolve L registry repo tag)
            (logged (ResolveCall repo tag) s)
      | Some (Custom_TagResolver f) \<Rightarrow>
          in_world (foreign (f repo tag)) (logged (ResolveCall repo tag) s))"

section \<open>Quayd\<close>

record 'w Quayd =
  StatusesRepository :: "'w StatusesRepository option"
  Tagger :: "'w Tagger option"
  TagResolver :: "'w TagResolver option"

definition Default :: "'w Quayd" where
  "Default = \<lparr>StatusesRepository = None, Tagger = None, TagResolver = None\<rparr>"

text \<open>
  \<^verbatim>\<open>New\<close>: \<^verbatim>\<open>auth[0]\<close> and \<^verbatim>\<open>auth[1]\<close> are read while the struct literal is
  built, so an index out of range panics before anything is returned.
\<close>

definition New :: "'w libs \<Rightarrow> string \<Rightarrow> string \<Rightarrow> panic + 'w Quayd" where
  "New L token registryAuth =
     (let gh = github_Repositories L token;
          auth = Split registryAuth (CHR '':'')
      in case index auth 0 of
           Inl p \<Rightarrow> Inl p
         | Inr username \<Rightarrow>
             (case index auth 1 of
                Inl p \<Rightarrow> Inl p
              | Inr password \<Rightarrow>
                  Inr \<lparr>StatusesRepository = Some (GitHubStatusesRepository gh),
                       Tagger = Some (DockerRegistryTagger ''quay.io'' username password),
                       TagResolver = Some (DockerRegistryTagResolver ''quay.io'')\<rparr>))"

text \<open>
  The three accessors.  \<^verbatim>\<open>statusesRepository\<close> leaves the struct as it is;
  \<^verbatim>\<open>tagger\<close> and \<^verbatim>\<open>tagResolver\<close> store the default into the nil field, so they
  return the struct as well.
\<close>

definition statusesRepository :: "'w Quayd \<Rightarrow> 'w StatusesRepository option" where
  "statusesRepository q =
     (if StatusesRepository q = None then Some DefaultStatusesRepository
      else StatusesRepository q)"

definition tagger :: "'w Quayd \<Rightarrow> 'w Tagger option \<times> 'w Quayd" where
  "tagger q =
     (let q' = (if Tagger q = None then q\<lparr>Tagger := Some DefaultTagger\<rparr> else q)
      in (Tagger q', q'))"

definition tagResolver :: "'w Quayd \<Rightarrow> 'w TagResolver option \<times> 'w Quayd" where
  "tagResolver q =
     (let q' = (if TagResolver q = None then q\<lparr>TagResolver := Some DefaultTagResolver\<rparr> else q)
      in (TagResolver q', q'))"

definition Handle ::
  "'w Quayd \<Rightarrow> string \<Rightarrow> string \<Rightarrow> string \<Rightarrow> string \<Rightarrow> 'w machine \<Rightarrow>
     (panic + error option) \<times> 'w machine" where
  "Handle q repo commit url state s =
     Create (statusesRepository q)
       \<lparr>Repo = repo, Ref = commit, State = state, Context = Context,
        TargetURL = url, Description = map_index Statuses state\<rparr> s"

definition LoadImageTags ::
  "'w libs \<Rightarrow> 'w Quayd \<Rightarrow> string \<Rightarrow> string \<Rightarrow> string \<Rightarrow> 'w machine \<Rightarrow>
     (panic + error option) \<times> 'w Quayd \<times> 'w machine" where
  "LoadImageTags L q tag repo commit s =
     (case tagResolver q of
        (r, q1) \<Rightarrow>
          (case Resolve L r repo tag s of
             (Inl p, s1) \<Rightarrow> (Inl p, q1, s1)
           | (Inr (imageID, err), s1) \<Rightarrow>
               (if err \<noteq> None then (Inr err, q1, s1)
                else
                  (case tagger q1 of
                     (t, q2) \<Rightarrow>
                       (case Tag L t repo imageID commit s1 of
                          (Inl p, s2) \<Rightarrow> (Inl p, q2, s2)
                        | (Inr err, s2) \<Rightarrow>
                            (if err \<noteq> None then (Inr err, q2, s2)
                             else
                               (case tagger q2 of
                                  (t', q3) \<Rightarrow>
                                    (case Tag L t' repo imageID imageID s2 of
                                       (res, s3) \<Rightarrow> (res, q3, s3)))))))))"

section \<open>The build event handler\<close>

text \<open>
  A normalized build event, as the specification's data model gives it: the repository,
  the commit reference, the reported state and the build URL, together with the
  registry tag that the webhook layer takes from the payload.
\<close>

record BuildEvent =
  ev_repository :: string
  ev_ref :: string
  ev_state :: string
  ev_buildURL :: string
  ev_tag :: string

text \<open>
  What the handler hands back: the event was rejected as an unknown status, which is
  told apart from every error and panic of the adapters, or it was handled with the
  given outcome.
\<close>

datatype 'a handled = UnknownStatus | Handled 'a

text \<open>
  Modelled from the spec: the webhook server that receives an event, checks its state
  and calls \<^verbatim>\<open>Handle\<close> and \<^verbatim>\<open>LoadImageTags\<close> (\<^verbatim>\<open>NewServer\<close> in the tests) is
  not among the source files.  The specification says of it: an event whose state is
  not one of the three recognized values is rejected before any side effect occurs; on
  pending or failure the commit status sink is called once and its error returned,
  with no tagging; on success the sink is called first, and status creation and tag
  stabilization are sequential, the first failure aborting the remainder.
\<close>

definition BuildEventHandler ::
  "'w libs \<Rightarrow> 'w Quayd \<Rightarrow> BuildEvent \<Rightarrow> 'w machine \<Rightarrow>
     (panic + error option) handled \<times> 'w Quayd \<times> 'w machine" where
  "BuildEventHandler L q ev s =
     (if ev_state ev \<notin> {''pending'', ''success'', ''failure''} then (UnknownStatus, q, s)
      else
        (case Handle q (ev_repository ev) (ev_ref ev) (ev_buildURL ev) (ev_state ev) s of
           (Inl p, s1) \<Rightarrow> (Handled (Inl p), q, s1)
         | (Inr (Some err), s1) \<Rightarrow> (Handled (Inr (Some err)), q, s1)
         | (Inr None, s1) \<Rightarrow>
             (if ev_state ev = ''success'' then
                (case LoadImageTags L q (ev_tag ev) (ev_repository ev) (ev_ref ev) s1 of
                   (res, q', s2) \<Rightarrow> (Handled res, q', s2))
              else (Handled (Inr None), q, s1))))"

section \<open>Example environments\<close>

text \<open>
  Concrete surroundings on which the program is run in the examples below.  The
  outside world is the list of requests that reached a remote service, oldest first.
  In \<open>canned_libs get_answer put_answer\<close> every URL parses, GitHub accepts every
  status, every \<^verbatim>\<open>http.Get\<close> is answered with \<open>get_answer\<close> and every
  \<^verbatim>\<open>http.DefaultClient.Do\<close> with \<open>put_answer\<close>.  The decoder \<open>decode_plain\<close>
  reads a body that is one JSON string literal without escapes, as encoding/json
  does, and rejects every other body.
\<close>

definition decode_plain :: "string \<Rightarrow> error + string" where
  "decode_plain body =
     (case body of
        [] \<Rightarrow> Inl (LibraryError ''EOF'')
      | c # cs \<Rightarrow>
          (if c = CHR 0x22 \<and> cs \<noteq> [] \<and> last cs = CHR 0x22
              \<and> CHR 0x22 \<notin> set (butlast cs) \<and> CHR 0x5C \<notin> set (butlast cs)
           then Inr (butlast cs)
           else Inl (LibraryError ''json: cannot unmarshal into Go value of type string'')))"

definition canned_libs ::
  "Response option \<times> error option \<Rightarrow> Response option \<times> error option \<Rightarrow> string list libs" where
  "canned_libs get_answer put_answer =
     \<lparr>github_Repositories =
        (\<lambda>token owner repo ref st w. (None, w @ [''POST github '' @ owner @ ''/'' @ repo])),
      url_Parse = (\<lambda>url. None),
      Do = (\<lambda>req w. (put_answer, w @ [Method req @ '' '' @ URL req])),
      Get = (\<lambda>url w. (get_answer, w @ [''GET '' @ url])),
      Decode = decode_plain\<rparr>"

definition answer :: "int \<Rightarrow> string \<Rightarrow> string \<Rightarrow> Response option \<times> error option" where
  "answer code line body = (Some \<lparr>Status = line, StatusCode = code, Body = body\<rparr>, None)"

definition json_string :: "string \<Rightarrow> string" where
  "json_string v = [CHR 0x22] @ v @ [CHR 0x22]"

text \<open>A request that never gets a response: the client returns a nil response and an error.\<close>

definition transport_failure :: "Response option \<times> error option" where
  "transport_failure = (None, Some (LibraryError ''dial tcp: connection refused''))"

text \<open>
  Three registries: one that resolves every tag to the image \<^verbatim>\<open>1234\<close> and accepts
  every tag write, one that resolves but answers every tag write with status 500, and
  one that cannot be reached.
\<close>

definition registry_up :: "string list libs" where
  "registry_up =
     canned_libs (answer 200 ''200 OK'' (json_string ''1234'')) (answer 200 ''200 OK'' [])"

definition registry_read_only :: "string list libs" where
  "registry_read_only =
     canned_libs (answer 200 ''200 OK'' (json_string ''1234''))
       (answer 500 ''500 Internal Server Error'' [])"

definition registry_down :: "string list libs" where
  "registry_down = canned_libs transport_failure transport_failure"

definition booted :: "'w \<Rightarrow> 'w machine" where
  "booted w = \<lparr>statuses = [], calls = [], world = w\<rparr>"

text \<open>
  A struct with the fake sink (its field is nil) and the network-backed resolver and
  tagger of \<^verbatim>\<open>New\<close>.
\<close>

definition registry_Quayd :: "string list Quayd" where
  "registry_Quayd =
     \<lparr>StatusesRepository = None,
      Tagger = Some (DockerRegistryTagger ''quay.io'' ''user'' ''secret''),
      TagResolver = Some (DockerRegistryTagResolver ''quay.io'')\<rparr>"

text \<open>
  A registry that answers every read with status 404 and a body that is a JSON string.
\<close>

definition registry_tag_missing :: "string list libs" where
  "registry_tag_missing =
     canned_libs (answer 404 ''404 Not Found'' (json_string ''Tag not found''))
       (answer 200 ''200 OK'' [])"

section \<open>Lemmas about the library model and the call history\<close>

declare Split.simps [simp del]

lemma Split_without_sep:
  assumes "sep \<notin> set s"
  shows "Split s sep = [s]"
proof -
  from assms have d: "dropWhile (\<lambda>c. c \<noteq> sep) s = []"
    by auto
  show ?thesis
    by (subst Split.simps) (simp only: d list.case)
qed

lemma Split_at_sep:
  assumes "sep \<notin> set u"
  shows "Split (u @ sep # rest) sep = u # Split rest sep"
proof -
  from assms have d: "dropWhile (\<lambda>c. c \<noteq> sep) (u @ sep # rest) = sep # rest"
    by (induction u) auto
  from assms have t: "takeWhile (\<lambda>c. c \<noteq> sep) (u @ sep # rest) = u"
    by (induction u) auto
  show ?thesis
    by (subst Split.simps) (simp only: d t list.case)
qed

lemma Split_not_Nil: "Split s sep \<noteq> []"
  by (subst Split.simps) (simp split: list.split)

lemma calls_in_world: "calls (snd (in_world m s)) = calls s"
  by (simp add: in_world_def split: prod.split)

lemma statuses_in_world: "statuses (snd (in_world m s)) = statuses s"
  by (simp add: in_world_def split: prod.split)


lemma calls_Tag:
  "calls (snd (Tag L (Some t) repo imageID tag s)) = calls s @ [TagCall repo imageID tag]"
  by (cases t) (simp_all add: Tag_def calls_in_world logged_def tagger_Tag_def)

lemma calls_Resolve:
  "calls (snd (Resolve L (Some r) repo tag s)) = calls s @ [ResolveCall repo tag]"
  by (cases r) (simp_all add: Resolve_def calls_in_world logged_def tagResolver_Resolve_def)

lemma statusesRepository_Some:
  "statusesRepository q =
     Some (case StatusesRepository q of None \<Rightarrow> DefaultStatusesRepository | Some r \<Rightarrow> r)"
  by (simp add: statusesRepository_def split: option.split)

lemma tagger_Some:
  "fst (tagger q) = Some (case Tagger q of None \<Rightarrow> DefaultTagger | Some t \<Rightarrow> t)"
  by (simp add: tagger_def Let_def split: option.split)

lemma tagResolver_Some:
  "fst (tagResolver q) =
     Some (case TagResolver q of None \<Rightarrow> DefaultTagResolver | Some t \<Rightarrow> t)"
  by (simp add: tagResolver_def Let_def split: option.split)

lemma tagger_idem: "tagger (snd (tagger q)) = (fst (tagger q), snd (tagger q))"
  by (simp add: tagger_def Let_def)

lemma tagger_after_tagResolver: "fst (tagger (snd (tagResolver q))) = fst (tagger q)"
  by (simp add: tagger_def tagResolver_def Let_def)

lemma map_index_Statuses:
  "map_index Statuses state =
     (if state = ''pending'' then ''The Docker image is building''
      else if state = ''success'' then ''The Docker image was built''
      else if state = ''failure'' then ''The Docker image failed to build''
      else [])"
  by (simp add: map_index_def Statuses_def)

section \<open>Handle\<close>




section \<open>The defaults of nil fields\<close>

lemma fst_in_world: "fst (in_world m s) = fst (m (world s))"
  by (simp add: in_world_def split: prod.split)

lemma foreign_not_nil_call: "fst (foreign m w) \<noteq> Inl NilInterfaceCall"
  by (simp add: foreign_def split: prod.split sum.split)

lemma GitHub_Create_not_nil_call:
  "fst (GitHubStatusesRepository_Create cs status w) \<noteq> Inl NilInterfaceCall"
  by (simp add: GitHubStatusesRepository_Create_def Let_def index_def split: prod.split)

lemma Docker_Tag_not_nil_call:
  "fst (DockerRegistryTagger_Tag L registry username password repo imageID tag w) \<noteq>
     Inl NilInterfaceCall"
  by (simp add: DockerRegistryTagger_Tag_def Let_def split: prod.split sum.split option.split)

lemma Docker_Resolve_not_nil_call:
  "fst (DockerRegistryTagResolver_Resolve L registry repo tag w) \<noteq> Inl NilInterfaceCall"
  by (simp add: DockerRegistryTagResolver_Resolve_def split: prod.split sum.split option.split)

lemma Create_not_nil_call: "fst (Create (Some r) status s) \<noteq> Inl NilInterfaceCall"
  by (cases r)
    (simp_all add: Create_def statusesRepository_Create_def fst_in_world
      foreign_not_nil_call GitHub_Create_not_nil_call)

lemma Tag_not_nil_call: "fst (Tag L (Some t) repo imageID tag s) \<noteq> Inl NilInterfaceCall"
  by (cases t)
    (simp_all add: Tag_def tagger_Tag_def fst_in_world foreign_not_nil_call
      Docker_Tag_not_nil_call)

lemma Resolve_not_nil_call: "fst (Resolve L (Some r) repo tag s) \<noteq> Inl NilInterfaceCall"
  by (cases r)
    (simp_all add: Resolve_def tagResolver_Resolve_def fst_in_world foreign_not_nil_call
      Docker_Resolve_not_nil_call)

lemma LoadImageTags_not_nil_call:
  "fst (LoadImageTags L q tag repo commit s) \<noteq> Inl NilInterfaceCall"
proof -
  obtain r q1 where r: "tagResolver q = (Some r, q1)"
    using tagResolver_Some [of q] by (cases "tagResolver q") simp
  obtain t q2 where t: "tagger q1 = (Some t, q2)"
    using tagger_Some [of q1] by (cases "tagger q1") simp
  obtain t' q3 where t': "tagger q2 = (Some t', q3)"
    using tagger_Some [of q2] by (cases "tagger q2") simp
  have R: "\<And>s1. Resolve L (Some r) repo tag s \<noteq> (Inl NilInterfaceCall, s1)"
    using Resolve_not_nil_call [of L r repo tag s] by auto
  have T1: "\<And>i s1 s2. Tag L (Some t) repo i commit s1 \<noteq> (Inl NilInterfaceCall, s2)"
    using Tag_not_nil_call [of L t repo _ commit] by (metis fst_conv)
  have T2: "\<And>i s1 s2. Tag L (Some t') repo i i s1 \<noteq> (Inl NilInterfaceCall, s2)"
    using Tag_not_nil_call [of L t' repo] by (metis fst_conv)
  show ?thesis
    using R T1 T2
    by (auto simp: LoadImageTags_def r t t' split: prod.split sum.split if_split)
qed

text \<open>
  Claim C8.  Each accessor returns the default of its own interface when its own field
  is nil and the field's value otherwise, whatever the other two fields hold; so the
  interface value a method is called on is never nil, and neither \<^verbatim>\<open>Handle\<close> nor
  \<^verbatim>\<open>LoadImageTags\<close> can end in \<open>NilInterfaceCall\<close>, the panic of a method call on a
  nil interface value, whichever fields are nil and whatever the others hold.  On a
  struct whose three fields are all nil, both return a nil error.
\<close>

theorem nil_fields_fall_back:
  "statusesRepository q =
     Some (case StatusesRepository q of None \<Rightarrow> DefaultStatusesRepository | Some r \<Rightarrow> r)
   \<and> fst (tagger q) = Some (case Tagger q of None \<Rightarrow> DefaultTagger | Some t \<Rightarrow> t)
   \<and> fst (tagResolver q) =
       Some (case TagResolver q of None \<Rightarrow> DefaultTagResolver | Some r \<Rightarrow> r)
   \<and> fst (Handle q repo commit url state s) \<noteq> Inl NilInterfaceCall
   \<and> fst (LoadImageTags L q tag repo commit s) \<noteq> Inl NilInterfaceCall
   \<and> fst (Handle Default repo commit url state s) = Inr None
   \<and> fst (LoadImageTags L Default tag repo commit s) = Inr None"
proof -
  have h: "fst (Handle q repo commit url state s) \<noteq> Inl NilInterfaceCall"
    by (simp add: Handle_def statusesRepository_Some Create_not_nil_call)
  have hd: "fst (Handle Default repo commit url state s) = Inr None"
    by (simp add: Handle_def Default_def statusesRepository_def Create_def
        statusesRepository_Create_def)
  have ld: "fst (LoadImageTags L Default tag repo commit s) = Inr None"
    by (simp add: LoadImageTags_def Default_def tagResolver_def tagger_def Let_def
        Resolve_def Tag_def tagResolver_Resolve_def tagger_Tag_def)
  show ?thesis
    using h hd ld
    by (simp add: statusesRepository_Some tagger_Some tagResolver_Some
        LoadImageTags_not_nil_call)
qed

section \<open>LoadImageTags\<close>

text \<open>
  The definitions to unfold when the program is run on one of the example
  environments.
\<close>

lemmas fixture_defs =
  registry_up_def registry_read_only_def registry_down_def registry_tag_missing_def
  canned_libs_def answer_def json_string_def transport_failure_def booted_def
  registry_Quayd_def decode_plain_def

lemmas run_defs =
  Handle_def Create_def statusesRepository_def statusesRepository_Create_def
  Resolve_def tagResolver_def DockerRegistryTagResolver_Resolve_def
  Tag_def tagger_def DockerRegistryTagger_Tag_def NewRequest_def
  in_world_def logged_def Context_def map_index_Statuses Let_def

text \<open>
  The accessors are called three times, but the interface values they return are those
  of the struct the method was entered with.
\<close>

lemma LoadImageTags_eq:
  "LoadImageTags L q tag repo commit s =
     (case Resolve L (fst (tagResolver q)) repo tag s of
        (Inl p, s1) \<Rightarrow> (Inl p, snd (tagResolver q), s1)
      | (Inr (imageID, err), s1) \<Rightarrow>
          (if err \<noteq> None then (Inr err, snd (tagResolver q), s1)
           else
             (case Tag L (fst (tagger q)) repo imageID commit s1 of
                (Inl p, s2) \<Rightarrow> (Inl p, snd (tagger (snd (tagResolver q))), s2)
              | (Inr err, s2) \<Rightarrow>
                  (if err \<noteq> None then (Inr err, snd (tagger (snd (tagResolver q))), s2)
                   else
                     (case Tag L (fst (tagger q)) repo imageID imageID s2 of
                        (res, s3) \<Rightarrow> (res, snd (tagger (snd (tagResolver q))), s3))))))"
proof -
  obtain r q1 where r: "tagResolver q = (r, q1)"
    by (cases "tagResolver q")
  obtain t q2 where t: "tagger q1 = (t, q2)"
    by (cases "tagger q1")
  have t': "tagger q2 = (t, q2)"
    using tagger_idem [of q1] by (simp add: t)
  have tq: "fst (tagger q) = t"
    using tagger_after_tagResolver [of q] by (simp add: r t)
  show ?thesis
    by (auto simp: LoadImageTags_def r t t' tq split: prod.split sum.split)
qed

lemma calls_after_Resolve:
  assumes "Resolve L (fst (tagResolver q)) repo tag s = (x, s1)"
  shows "calls s1 = calls s @ [ResolveCall repo tag]"
proof -
  obtain r where "fst (tagResolver q) = Some r"
    by (simp add: tagResolver_Some)
  then show ?thesis
    using calls_Resolve [of L r repo tag s] assms by simp
qed

lemma calls_after_Tag:
  assumes "Tag L (fst (tagger q)) repo imageID tag s = (x, s1)"
  shows "calls s1 = calls s @ [TagCall repo imageID tag]"
proof -
  obtain t where "fst (tagger q) = Some t"
    by (simp add: tagger_Some)
  then show ?thesis
    using calls_Tag [of L t repo imageID tag s] assms by simp
qed


text \<open>
  Claim C4.  \<^verbatim>\<open>LoadImageTags\<close> stops at the first failure.  When the resolver
  returns an error, that error is the result and the only call made is the resolver's:
  no tag is written.  When the resolver succeeds and the first tag write (the commit
  reference) returns an error, that error is the result and the calls made are the
  resolver's and that one tag write: the second tag write (the image identifier as its
  own tag) is not attempted.  The result is nil exactly when the resolver and both tag
  writes returned nil errors.
\<close>

theorem LoadImageTags_first_failure_aborts:
  "(Resolve L (fst (tagResolver q)) repo tag s = (Inr (imageID, Some e), s1) \<longrightarrow>
      fst (LoadImageTags L q tag repo commit s) = Inr (Some e)
      \<and> snd (snd (LoadImageTags L q tag repo commit s)) = s1
      \<and> calls s1 = calls s @ [ResolveCall repo tag])
   \<and> (Resolve L (fst (tagResolver q)) repo tag s = (Inr (imageID, None), s1)
       \<and> Tag L (fst (tagger q)) repo imageID commit s1 = (Inr (Some e), s2) \<longrightarrow>
      fst (LoadImageTags L q tag repo commit s) = Inr (Some e)
      \<and> snd (snd (LoadImageTags L q tag repo commit s)) = s2
      \<and> calls s2 = calls s @ [ResolveCall repo tag, TagCall repo imageID commit])
   \<and> (fst (LoadImageTags L q tag repo commit s) = Inr None) =
       (\<exists>i t1 t2 t3.
          Resolve L (fst (tagResolver q)) repo tag s = (Inr (i, None), t1)
          \<and> Tag L (fst (tagger q)) repo i commit t1 = (Inr None, t2)
          \<and> Tag L (fst (tagger q)) repo i i t2 = (Inr None, t3))"
proof (intro conjI impI)
  assume a: "Resolve L (fst (tagResolver q)) repo tag s = (Inr (imageID, Some e), s1)"
  show "fst (LoadImageTags L q tag repo commit s) = Inr (Some e)"
    by (simp add: LoadImageTags_eq a)
  show "snd (snd (LoadImageTags L q tag repo commit s)) = s1"
    by (simp add: LoadImageTags_eq a)
  show "calls s1 = calls s @ [ResolveCall repo tag]"
    using a by (rule calls_after_Resolve)
next
  assume a: "Resolve L (fst (tagResolver q)) repo tag s = (Inr (imageID, None), s1)
       \<and> Tag L (fst (tagger q)) repo imageID commit s1 = (Inr (Some e), s2)"
  show "fst (LoadImageTags L q tag repo commit s) = Inr (Some e)"
    by (simp add: LoadImageTags_eq a)
  show "snd (snd (LoadImageTags L q tag repo commit s)) = s2"
    by (simp add: LoadImageTags_eq a)
  have "calls s1 = calls s @ [ResolveCall repo tag]"
    using a calls_after_Resolve by blast
  moreover have "calls s2 = calls s1 @ [TagCall repo imageID commit]"
    using a calls_after_Tag by blast
  ultimately show "calls s2 = calls s @ [ResolveCall repo tag, TagCall repo imageID commit]"
    by simp
next
  show "(fst (LoadImageTags L q tag repo commit s) = Inr None) =
       (\<exists>i t1 t2 t3.
          Resolve L (fst (tagResolver q)) repo tag s = (Inr (i, None), t1)
          \<and> Tag L (fst (tagger q)) repo i commit t1 = (Inr None, t2)
          \<and> Tag L (fst (tagger q)) repo i i t2 = (Inr None, t3))"
    by (auto simp: LoadImageTags_eq split: prod.splits sum.splits if_splits)
qed

theorem LoadImageTags_first_failure_aborts_witness:
  "fst (LoadImageTags registry_down registry_Quayd ''v1'' ''ejholmes/docker-statsd''
          ''long-f1fb3b0'' (booted [])) =
     Inr (Some (LibraryError ''dial tcp: connection refused''))
   \<and> calls (snd (snd (LoadImageTags registry_down registry_Quayd ''v1''
          ''ejholmes/docker-statsd'' ''long-f1fb3b0'' (booted [])))) =
       [ResolveCall ''ejholmes/docker-statsd'' ''v1'']
   \<and> fst (LoadImageTags registry_read_only registry_Quayd ''v1'' ''ejholmes/docker-statsd''
          ''long-f1fb3b0'' (booted [])) =
       Inr (Some (ErrorsNew ''Unsuccessful Request: 500 Internal Server Error''))
   \<and> calls (snd (snd (LoadImageTags registry_read_only registry_Quayd ''v1''
          ''ejholmes/docker-statsd'' ''long-f1fb3b0'' (booted [])))) =
       [ResolveCall ''ejholmes/docker-statsd'' ''v1'',
        TagCall ''ejholmes/docker-statsd'' ''1234'' ''long-f1fb3b0'']
   \<and> fst (LoadImageTags registry_up registry_Quayd ''v1'' ''ejholmes/docker-statsd''
          ''long-f1fb3b0'' (booted [])) = Inr None"
proof -
  let ?R = "''ejholmes/docker-statsd''" and ?T = "''v1''" and ?C = "''long-f1fb3b0''"
  let ?q = registry_Quayd
  let ?s = "booted [] :: string list machine"
  let ?e = "LibraryError ''dial tcp: connection refused''"
  let ?e' = "ErrorsNew ''Unsuccessful Request: 500 Internal Server Error''"
  let ?d1 = "snd (Resolve registry_down (fst (tagResolver ?q)) ?R ?T ?s)"
  let ?r1 = "snd (Resolve registry_read_only (fst (tagResolver ?q)) ?R ?T ?s)"
  let ?r2 = "snd (Tag registry_read_only (fst (tagger ?q)) ?R ''1234'' ?C ?r1)"
  have d: "Resolve registry_down (fst (tagResolver ?q)) ?R ?T ?s = (Inr ([], Some ?e), ?d1)"
    by (simp add: fixture_defs run_defs)
  have r: "Resolve registry_read_only (fst (tagResolver ?q)) ?R ?T ?s =
      (Inr (''1234'', None), ?r1)"
    by (simp add: fixture_defs run_defs)
  have t: "Tag registry_read_only (fst (tagger ?q)) ?R ''1234'' ?C ?r1 = (Inr (Some ?e'), ?r2)"
    by (simp add: fixture_defs run_defs)
  have u: "\<exists>i t1 t2 t3.
      Resolve registry_up (fst (tagResolver ?q)) ?R ?T ?s = (Inr (i, None), t1)
      \<and> Tag registry_up (fst (tagger ?q)) ?R i ?C t1 = (Inr None, t2)
      \<and> Tag registry_up (fst (tagger ?q)) ?R i i t2 = (Inr None, t3)"
    by (simp add: fixture_defs run_defs)
  note a = LoadImageTags_first_failure_aborts
    [where L = registry_down and q = ?q and repo = ?R and tag = ?T and commit = ?C and s = ?s
      and imageID = "[]" and e = ?e and ?s1.0 = ?d1]
  note b = LoadImageTags_first_failure_aborts
    [where L = registry_read_only and q = ?q and repo = ?R and tag = ?T and commit = ?C
      and s = ?s and imageID = "''1234''" and e = ?e' and ?s1.0 = ?r1 and ?s2.0 = ?r2]
  note c = LoadImageTags_first_failure_aborts
    [where L = registry_up and q = ?q and repo = ?R and tag = ?T and commit = ?C and s = ?s]
  have 1: "fst (LoadImageTags registry_down ?q ?T ?R ?C ?s) = Inr (Some ?e)"
    using a d by blast
  have 2: "calls (snd (snd (LoadImageTags registry_down ?q ?T ?R ?C ?s))) = [ResolveCall ?R ?T]"
    using a d by (simp add: booted_def)
  have 3: "fst (LoadImageTags registry_read_only ?q ?T ?R ?C ?s) = Inr (Some ?e')"
    using b r t by blast
  have 4: "calls (snd (snd (LoadImageTags registry_read_only ?q ?T ?R ?C ?s))) =
      [ResolveCall ?R ?T, TagCall ?R ''1234'' ?C]"
    using b r t by (simp add: booted_def)
  have 5: "fst (LoadImageTags registry_up ?q ?T ?R ?C ?s) = Inr None"
    using c u by blast
  show ?thesis
    using 1 2 3 4 5 by blast
qed




section \<open>Events with an unknown state\<close>

text \<open>
  Claim C2.  An event whose state is none of pending, success and failure is rejected
  by the build event handler as an unknown status, and the struct and the whole state
  are as they were: no commit status was recorded, the history of calls has no new
  entry (no sink, resolver or tagger call), and the outside world saw no request.
  (The rejection is the handler's: \<^verbatim>\<open>Handle\<close> itself accepts every state.)
\<close>

theorem unknown_state_rejected:
  assumes "ev_state ev \<notin> {''pending'', ''success'', ''failure''}"
  shows "BuildEventHandler L q ev s = (UnknownStatus, q, s)"
  using assms by (simp add: BuildEventHandler_def)

theorem unknown_state_rejected_witness:
  "ev_state \<lparr>ev_repository = ''ejholmes/docker-statsd'', ev_ref = ''long-f1fb3b0'',
       ev_state = ''foo'', ev_buildURL = ''https://quay.io/b/1'', ev_tag = ''v1''\<rparr>
     \<notin> {''pending'', ''success'', ''failure''}
   \<and> BuildEventHandler registry_up registry_Quayd
       \<lparr>ev_repository = ''ejholmes/docker-statsd'', ev_ref = ''long-f1fb3b0'',
        ev_state = ''foo'', ev_buildURL = ''https://quay.io/b/1'', ev_tag = ''v1''\<rparr>
       (booted []) =
     (UnknownStatus, registry_Quayd, booted [])"
proof -
  have h: "ev_state \<lparr>ev_repository = ''ejholmes/docker-statsd'', ev_ref = ''long-f1fb3b0'',
       ev_state = ''foo'', ev_buildURL = ''https://quay.io/b/1'', ev_tag = ''v1''\<rparr>
     \<notin> {''pending'', ''success'', ''failure''}"
    by simp
  show ?thesis
    using unknown_state_rejected [OF h] h by blast
qed

text \<open>
  For the three recognized states the handler does what the theorems on \<^verbatim>\<open>Handle\<close>
  and \<^verbatim>\<open>LoadImageTags\<close> take as given: a pending or failure event ends with the one
  call of \<^verbatim>\<open>Handle\<close>, and a success event whose status was created runs
  \<^verbatim>\<open>LoadImageTags\<close> on the state that \<^verbatim>\<open>Handle\<close> left.
\<close>

lemma BuildEventHandler_pending_or_failure:
  assumes "ev_state ev = ''pending'' \<or> ev_state ev = ''failure''"
  shows "BuildEventHandler L q ev s =
     (Handled (fst (Handle q (ev_repository ev) (ev_ref ev) (ev_buildURL ev) (ev_state ev) s)),
      q,
      snd (Handle q (ev_repository ev) (ev_ref ev) (ev_buildURL ev) (ev_state ev) s))"
  using assms
  by (auto simp: BuildEventHandler_def split: prod.split sum.split option.split)

lemma BuildEventHandler_success:
  assumes "ev_state ev = ''success''"
    and "Handle q (ev_repository ev) (ev_ref ev) (ev_buildURL ev) ''success'' s = (Inr None, s1)"
  shows "BuildEventHandler L q ev s =
     (case LoadImageTags L q (ev_tag ev) (ev_repository ev) (ev_ref ev) s1 of
        (res, q', s2) \<Rightarrow> (Handled res, q', s2))"
  using assms by (simp add: BuildEventHandler_def)

section \<open>GitHubStatusesRepository.Create\<close>

lemma Split_two_segments:
  assumes "sep \<notin> set u" and "sep \<notin> set p" and "rest = [] \<or> hd rest = sep"
  shows "\<exists>more. Split (u @ sep # p @ rest) sep = u # p # more"
proof (cases rest)
  case Nil
  then show ?thesis
    using assms by (simp add: Split_at_sep Split_without_sep)
next
  case (Cons c cs)
  then have "rest = sep # cs"
    using assms(3) by simp
  then show ?thesis
    using assms(1,2) by (simp add: Split_at_sep)
qed

text \<open>
  Claim C5, as amended.  \<^verbatim>\<open>Create\<close> does not validate the repository string and
  makes no error of its own.  Whenever the string contains a slash, that is, whenever
  it is \<open>owner\<close>, a slash, \<open>name\<close>, and then nothing or a further slash and more text,
  with no slash in \<open>owner\<close> or \<open>name\<close>, it calls \<^verbatim>\<open>CreateStatus\<close> once with \<open>owner\<close>
  and \<open>name\<close> as they are (either may be empty, and what follows a second slash is
  dropped) and returns the error of that call unchanged.
\<close>

theorem GitHub_Create_takes_first_two_segments:
  assumes "CHR ''/'' \<notin> set owner" and "CHR ''/'' \<notin> set name"
    and "rest = [] \<or> hd rest = CHR ''/''"
    and "Repo status = owner @ ''/'' @ name @ rest"
  shows "GitHubStatusesRepository_Create cs status w =
     (case cs owner name (Ref status)
             (RepoStatus (State status) (TargetURL status) (Status.Context status)
                (Description status)) w of
        (err, w') \<Rightarrow> (Inr err, w'))"
proof -
  obtain more where "Split (Repo status) (CHR ''/'') = owner # name # more"
    using Split_two_segments [OF assms(1,2,3)] assms(4) by auto
  then show ?thesis
    by (simp add: GitHubStatusesRepository_Create_def index_def)
qed

theorem GitHub_Create_takes_first_two_segments_witness:
  "GitHubStatusesRepository_Create (github_Repositories registry_up ''token'')
     \<lparr>Repo = ''ejholmes/docker-statsd'', Ref = ''long-f1fb3b0'', State = ''pending'',
      Context = ''Docker Image'', TargetURL = ''https://quay.io/b/1'',
      Description = ''The Docker image is building''\<rparr> [] =
   (Inr None, [''POST github ejholmes/docker-statsd''])"
proof -
  let ?st = "\<lparr>Repo = ''ejholmes/docker-statsd'', Ref = ''long-f1fb3b0'', State = ''pending'',
      Context = ''Docker Image'', TargetURL = ''https://quay.io/b/1'',
      Description = ''The Docker image is building''\<rparr>"
  have a: "CHR ''/'' \<notin> set ''ejholmes''" and b: "CHR ''/'' \<notin> set ''docker-statsd''"
    and c: "[] = [] \<or> hd [] = CHR ''/''"
    and d: "Repo ?st = ''ejholmes'' @ ''/'' @ ''docker-statsd'' @ []"
    by simp_all
  have "GitHubStatusesRepository_Create (github_Repositories registry_up ''token'') ?st [] =
      (case github_Repositories registry_up ''token'' ''ejholmes'' ''docker-statsd'' (Ref ?st)
              (RepoStatus (State ?st) (TargetURL ?st) (Status.Context ?st) (Description ?st)) [] of
         (err, w') \<Rightarrow> (Inr err, w'))"
    by (rule GitHub_Create_takes_first_two_segments [OF a b c d])
  then show ?thesis
    by (simp add: fixture_defs)
qed

text \<open>
  The claim as it was stated, that a repository string which is not exactly two
  non-empty segments makes \<^verbatim>\<open>Create\<close> return an error and never reaches the remote
  API, fails on a string of three segments and on a string with an empty owner: with
  a service that accepts the call, \<^verbatim>\<open>Create\<close> returns nil, and the service was called
  with the first two segments.
\<close>

theorem malformed_repository_accepted_counterexample:
  "GitHubStatusesRepository_Create (github_Repositories registry_up ''token'')
     \<lparr>Repo = ''ejholmes/docker-statsd/extra'', Ref = ''long-f1fb3b0'', State = ''pending'',
      Context = ''Docker Image'', TargetURL = ''https://quay.io/b/1'',
      Description = ''The Docker image is building''\<rparr> [] =
   (Inr None, [''POST github ejholmes/docker-statsd''])
   \<and> GitHubStatusesRepository_Create (github_Repositories registry_up ''token'')
     \<lparr>Repo = ''/docker-statsd'', Ref = ''long-f1fb3b0'', State = ''pending'',
      Context = ''Docker Image'', TargetURL = ''https://quay.io/b/1'',
      Description = ''The Docker image is building''\<rparr> [] =
   (Inr None, [''POST github /docker-statsd''])"
  by (simp add: GitHubStatusesRepository_Create_def index_def Split.simps fixture_defs)

text \<open>
  A repository string without a slash splits into one segment, and the read of the
  second one panics before the remote API is called.
\<close>

lemma GitHub_Create_without_slash:
  assumes "CHR ''/'' \<notin> set (Repo status)"
  shows "GitHubStatusesRepository_Create cs status w = (Inl IndexOutOfRange, w)"
  using assms by (simp add: GitHubStatusesRepository_Create_def index_def Split_without_sep)

section \<open>DockerRegistryTagger.Tag\<close>

text \<open>
  What \<^verbatim>\<open>Tag\<close> does when the client hands back a response: with an error beside
  it, or with a status of 300 or more, the result is an error that carries the status
  line of the response; the result is nil only for a response with a status below 300
  and no error.
\<close>

lemma Tag_with_response:
  assumes "url_Parse L (''https://'' @ registry @ ''/v1/repositories/'' @ repo @ ''/tags/'' @ tag)
      = None"
    and "Do L
      \<lparr>Method = ''PUT'',
       URL = ''https://'' @ registry @ ''/v1/repositories/'' @ repo @ ''/tags/'' @ tag,
       Payload = [CHR 0x22] @ imageID @ [CHR 0x22],
       Header = [(''Content-Type'', ''application/json'')],
       BasicAuth = Some (username, password)\<rparr> w = ((Some r, err), w')"
  shows "DockerRegistryTagger_Tag L registry username password repo imageID tag w =
     (if err \<noteq> None \<or> 300 \<le> StatusCode r
      then Inr (Some (ErrorsNew (''Unsuccessful Request: '' @ Status r)))
      else Inr None, w')"
  using assms by (simp add: DockerRegistryTagger_Tag_def NewRequest_def)

lemma Tag_nil_only_after_success:
  assumes "fst (DockerRegistryTagger_Tag L registry username password repo imageID tag w) =
      Inr None"
  shows "\<exists>r w'.
      Do L
        \<lparr>Method = ''PUT'',
         URL = ''https://'' @ registry @ ''/v1/repositories/'' @ repo @ ''/tags/'' @ tag,
         Payload = [CHR 0x22] @ imageID @ [CHR 0x22],
         Header = [(''Content-Type'', ''application/json'')],
         BasicAuth = Some (username, password)\<rparr> w = ((Some r, None), w')
      \<and> StatusCode r < 300"
  using assms
  by (auto simp: DockerRegistryTagger_Tag_def NewRequest_def Let_def
      split: option.splits sum.splits prod.splits if_splits)

text \<open>
  Claim C6, at the failing input.  When the request does not get through, the client
  returns a nil response and an error; \<^verbatim>\<open>Tag\<close> then reads the status line of the
  nil response and panics, where the claim has it return an error.
\<close>

theorem Tag_transport_failure_panics:
  "DockerRegistryTagger_Tag registry_down ''quay.io'' ''user'' ''secret''
     ''ejholmes/docker-statsd'' ''1234'' ''long-f1fb3b0'' [] =
   (Inl NilPointerDereference,
    [''PUT https://quay.io/v1/repositories/ejholmes/docker-statsd/tags/long-f1fb3b0''])"
  by (simp add: DockerRegistryTagger_Tag_def NewRequest_def fixture_defs)

section \<open>DockerRegistryTagResolver.Resolve\<close>

text \<open>
  A failed request and a body that does not decode are both returned as errors.
\<close>

lemma Resolve_transport_error:
  assumes "Get L (''https://'' @ registry @ ''/v1/repositories/'' @ repo @ ''/tags/'' @ tag) w =
      ((resp, Some e), w')"
  shows "DockerRegistryTagResolver_Resolve L registry repo tag w = (Inr ([], Some e), w')"
  using assms by (simp add: DockerRegistryTagResolver_Resolve_def)

lemma Resolve_decode_error:
  assumes "Get L (''https://'' @ registry @ ''/v1/repositories/'' @ repo @ ''/tags/'' @ tag) w =
      ((Some r, None), w')"
    and "Decode L (Body r) = Inl e"
  shows "DockerRegistryTagResolver_Resolve L registry repo tag w = (Inr ([], Some e), w')"
  using assms by (simp add: DockerRegistryTagResolver_Resolve_def)

text \<open>
  Claim C7, at the failing input.  The registry answers the read with status 404 and
  the body \<^verbatim>\<open>"Tag not found"\<close>, a JSON string.  \<^verbatim>\<open>Resolve\<close> never looks at the
  status: it decodes the body and returns it as the image identifier, with a nil
  error, where the claim has a status outside 2xx come back as an error.
\<close>

theorem Resolve_ignores_status_code:
  "DockerRegistryTagResolver_Resolve registry_tag_missing ''quay.io''
     ''ejholmes/docker-statsd'' ''v1'' [] =
   (Inr (''Tag not found'', None),
    [''GET https://quay.io/v1/repositories/ejholmes/docker-statsd/tags/v1''])"
  by (simp add: DockerRegistryTagResolver_Resolve_def fixture_defs)

section \<open>New\<close>

text \<open>
  Claim C9.  \<^verbatim>\<open>New\<close> needs a colon in \<^verbatim>\<open>registryAuth\<close>: without one it panics
  with an index out of range and returns nothing.  With one, the username of the
  tagger is the text before the first colon and the password is the text between the
  first colon and the second (up to the end when there is no second colon); what
  follows a second colon is dropped.  The registry of tagger and resolver is
  \<^verbatim>\<open>quay.io\<close>.
\<close>

theorem New_registryAuth:
  "(CHR '':'' \<notin> set registryAuth \<longrightarrow> New L token registryAuth = Inl IndexOutOfRange)
   \<and> (CHR '':'' \<notin> set u \<and> CHR '':'' \<notin> set p \<and> (rest = [] \<or> hd rest = CHR '':'') \<longrightarrow>
        New L token (u @ '':'' @ p @ rest) =
          Inr \<lparr>StatusesRepository = Some (GitHubStatusesRepository (github_Repositories L token)),
               Tagger = Some (DockerRegistryTagger ''quay.io'' u p),
               TagResolver = Some (DockerRegistryTagResolver ''quay.io'')\<rparr>)"
proof (intro conjI impI)
  assume "CHR '':'' \<notin> set registryAuth"
  then show "New L token registryAuth = Inl IndexOutOfRange"
    by (simp add: New_def index_def Split_without_sep)
next
  assume a: "CHR '':'' \<notin> set u \<and> CHR '':'' \<notin> set p \<and> (rest = [] \<or> hd rest = CHR '':'')"
  then obtain more where "Split (u @ '':'' @ p @ rest) (CHR '':'') = u # p # more"
    using Split_two_segments [of "CHR '':''" u p rest] by auto
  then show "New L token (u @ '':'' @ p @ rest) =
          Inr \<lparr>StatusesRepository = Some (GitHubStatusesRepository (github_Repositories L token)),
               Tagger = Some (DockerRegistryTagger ''quay.io'' u p),
               TagResolver = Some (DockerRegistryTagResolver ''quay.io'')\<rparr>"
    by (simp add: New_def index_def)
qed

theorem New_registryAuth_witness:
  "New registry_up ''token'' ''usersecret'' = Inl IndexOutOfRange
   \<and> New registry_up ''token'' ''user:secret:extra'' =
       Inr \<lparr>StatusesRepository =
              Some (GitHubStatusesRepository (github_Repositories registry_up ''token'')),
            Tagger = Some (DockerRegistryTagger ''quay.io'' ''user'' ''secret''),
            TagResolver = Some (DockerRegistryTagResolver ''quay.io'')\<rparr>"
proof -
  have a: "CHR '':'' \<notin> set ''usersecret''"
    by simp
  have b: "CHR '':'' \<notin> set ''user'' \<and> CHR '':'' \<notin> set ''secret''
      \<and> ('':extra'' = [] \<or> hd '':extra'' = CHR '':'')"
    by simp
  have c: "''user'' @ '':'' @ ''secret'' @ '':extra'' = ''user:secret:extra''"
    by simp
  show ?thesis
    using New_registryAuth
      [of "''usersecret''" registry_up "''token''" "''user''" "''secret''" "'':extra''"]
      a b c by simp
qed

end
